theory Spec2Isabelle
  imports Complex_Main "HOL-Library.Sublist" "HOL-Library.Multiset"
begin

section \<open>Strings, paths and number formatting\<close>

text \<open>
  The batch driver \<^verbatim>\<open>Segmentator/batch_segmentator.py\<close> works on path names, on the
  text of a formatted threshold and on the files an external tool leaves behind. Python
  strings are modelled as \<^typ>\<open>string\<close>; a Python \<^verbatim>\<open>float\<close> that is finite is
  modelled by the rational number it denotes (every finite double is a dyadic rational).
\<close>

definition digit_char :: "nat \<Rightarrow> char" where
  "digit_char d = ''0123456789'' ! (d mod 10)"

function str_nat :: "nat \<Rightarrow> string" where
  "str_nat n = (if n < 10 then [digit_char n] else str_nat (n div 10) @ [digit_char (n mod 10)])"
  by pat_completeness auto
termination
  by (relation "measure id") auto

declare str_nat.simps [simp del]

text \<open>
  \<^verbatim>\<open>f"{kthresh:.6f}"\<close>: the value is rounded to six decimals, ties to even (the
  conversion is correctly rounded on the exact binary value), a negative value keeps its
  sign even when it rounds to zero, and the fraction is padded to six digits.
\<close>

definition round_half_even :: "rat \<Rightarrow> nat" where
  "round_half_even r =
     (let f = \<lfloor>r\<rfloor>; d = r - of_int f
      in nat (if d < 1 / 2 then f else if 1 / 2 < d then f + 1 else if even f then f else f + 1))"

definition zfill6 :: "string \<Rightarrow> string" where
  "zfill6 s = replicate (6 - length s) CHR ''0'' @ s"

definition format_6f :: "rat \<Rightarrow> string" where
  "format_6f x =
     (let n = round_half_even (\<bar>x\<bar> * 1000000)
      in (if x < 0 then ''-'' else []) @ str_nat (n div 1000000) @ ''.''
           @ zfill6 (str_nat (n mod 1000000)))"

text \<open>The double nearest to the default threshold \<^verbatim>\<open>0.01\<close>.\<close>

definition float_0_01 :: rat where
  "float_0_01 = 5764607523034235 / 576460752303423488"

text \<open>\<^verbatim>\<open>sub in s\<close> on two Python strings: \<open>sub\<close> occurs in \<open>s\<close> as a contiguous run.\<close>

fun str_contains :: "string \<Rightarrow> string \<Rightarrow> bool" where
  "str_contains sub [] = (sub = [])"
| "str_contains sub (c # cs) = (prefix sub (c # cs) \<or> str_contains sub cs)"

text \<open>
  \<^verbatim>\<open>Path.glob(f"{scene_name}_vh_clean_2.*.segs.json")\<close> on the entries of one
  directory: the star stands for any run of characters, so a name matches when it starts
  with \<^verbatim>\<open><scene>_vh_clean_2.\<close>, ends with \<^verbatim>\<open>.segs.json\<close> and the two parts do not
  overlap. Scene names are taken to be free of the glob metacharacters.
\<close>

definition glob_matches :: "string \<Rightarrow> string \<Rightarrow> bool" where
  "glob_matches scene_name fname =
     (let pre = scene_name @ ''_vh_clean_2.''; suf = ''.segs.json''
      in prefix pre fname \<and> suffix suf fname \<and> length pre + length suf \<le> length fname)"

text \<open>A \<^verbatim>\<open>pathlib.Path\<close> to a scene: the directory it lies in and its last component.\<close>

record path =
  parent :: string
  name :: string

definition str_path :: "path \<Rightarrow> string" where
  "str_path p = parent p @ ''/'' @ name p"

definition joinpath :: "string \<Rightarrow> string \<Rightarrow> string" where
  "joinpath d f = d @ ''/'' @ f"

definition ply_name :: "string \<Rightarrow> string" where
  "ply_name scene_name = scene_name @ ''_vh_clean_2.ply''"

definition output_filename :: "string \<Rightarrow> string" where
  "output_filename scene_name = scene_name @ ''_vh_clean_2.0.010000.segs.json''"

section \<open>Files, documents and the external tool\<close>

text \<open>
  What \<^verbatim>\<open>json.load\<close> returns: \<^verbatim>\<open>None\<close>, a bool, an int, a float, a str, a
  list or a dict with string keys.
\<close>

datatype json =
    JNull
  | JBool bool
  | JInt int
  | JFloat rat
  | JStr string
  | JArr "json list"
  | JObj "(string \<times> json) list"

text \<open>
  A file body is described by what \<^verbatim>\<open>json.load\<close> does on it: it raises (with the
  message of the exception) or it returns a document.
\<close>

datatype body = NotJson string | Document json

record regfile =
  st_mtime :: rat
  body :: body

text \<open>The regular files of one directory, in the order the directory scan yields them.\<close>

type_synonym directory = "(string \<times> regfile) list"

definition type_error :: "string \<Rightarrow> string" where
  "type_error tyname =
     ''argument of type '' @ [CHR 0x27] @ tyname @ [CHR 0x27] @ '' is not iterable''"

text \<open>
  \<^verbatim>\<open>"segIndices" in seg_data\<close>. On a dict the operator tests the keys, on a list it
  compares the elements with the string, on a str it is the substring test, and on the
  other values it raises \<^verbatim>\<open>TypeError\<close> (\<open>Inl\<close> carries the message).
\<close>

fun py_contains :: "string \<Rightarrow> json \<Rightarrow> string + bool" where
  "py_contains k (JObj kvs) = Inr (k \<in> set (map fst kvs))"
| "py_contains k (JArr xs) = Inr (JStr k \<in> set xs)"
| "py_contains k (JStr s) = Inr (str_contains k s)"
| "py_contains k JNull = Inl (type_error ''NoneType'')"
| "py_contains k (JBool b) = Inl (type_error ''bool'')"
| "py_contains k (JInt i) = Inl (type_error ''int'')"
| "py_contains k (JFloat x) = Inl (type_error ''float'')"

text \<open>
  One call of \<^verbatim>\<open>subprocess.run(cmd, capture_output=True, text=True, check=True, cwd=...)\<close>.
  The arguments are kept typed (the \<^verbatim>\<open>str\<close> conversions of the numbers are not
  modelled).
\<close>

record invocation =
  inv_binary :: string
  inv_ply :: string
  inv_kthresh :: rat
  inv_min_verts :: int
  inv_cwd :: string

text \<open>
  The process either cannot be started (\<^verbatim>\<open>OSError\<close>, with its message) or exits with
  a code and its captured streams.
\<close>

datatype run_result = CannotLaunch string | Exited int string string

text \<open>
  The segmentation tool is a black box and a parameter of the model. It runs in the scene's
  directory and writes beside its input, so its behaviour is a function of the call and of
  the files of that directory, returning how the run ended and the files it leaves there.
\<close>

type_synonym segmentator = "invocation \<Rightarrow> directory \<Rightarrow> run_result \<times> directory"

section \<open>The filesystem the batch sees\<close>

datatype entry = Plain | Folder directory

datatype in_node = NoInput | InputNotDir | Listing "(string \<times> entry) list"

datatype bin_node = NoBinary | BinaryNotFile | BinaryFile

text \<open>
  The node at \<^verbatim>\<open>output_dir\<close>, as \<^verbatim>\<open>mkdir(parents=True, exist_ok=True)\<close> finds it:
  there is a directory, there is nothing and the directory can be made, or the call raises
  \<^verbatim>\<open>OSError\<close> with the given message (the path is a file, a parent cannot be written).
\<close>

datatype out_node = OutDir | OutMissing | OutBlocked string

text \<open>
  The state threaded through the program: the node at \<^verbatim>\<open>input_dir\<close> with the scene
  directories below it, the node found at each candidate path of the tool, the node at
  \<^verbatim>\<open>output_dir\<close>, the files written below the output tree (by full path name, taken to be
  disjoint from the scene directories), and the log of the external calls made so far.
  \<open>stat_error\<close> tells, for a path at which the state holds no file, whether the
  \<^verbatim>\<open>stat\<close> call behind \<^verbatim>\<open>Path.exists()\<close> fails with an error that
  \<^verbatim>\<open>exists()\<close> does not turn into \<^verbatim>\<open>False\<close> (a file name over the limit of the
  filesystem, a directory that may not be searched), and with which message. Scene
  directories hold regular files only; the tests on the two paths given as arguments
  (\<^verbatim>\<open>input_dir\<close>, the tool) do not raise; inside the \<^verbatim>\<open>try\<close> block of
  \<^verbatim>\<open>process_scene\<close> the glob, the reading and the copy do not fail for reasons outside
  this state.
\<close>

record world =
  input_node :: in_node
  bin_at :: "string \<Rightarrow> bin_node"
  out_node :: out_node
  out_files :: "string \<rightharpoonup> regfile"
  stat_error :: "string \<Rightarrow> string option"
  calls :: "invocation list"

text \<open>
  What a call does: it raises an exception that the called function does not catch
  (\<open>Raised\<close> carries \<^verbatim>\<open>str(e)\<close>), or it returns a value.
\<close>

datatype 'a result = Raised string | Returned 'a

text \<open>
  \<^verbatim>\<open>Path.exists()\<close> on a path, given whether the state holds a file there: a file that
  is there is found; otherwise the call raises when \<^verbatim>\<open>stat\<close> fails in the way
  described above, and returns \<^verbatim>\<open>False\<close> when it does not.
\<close>

definition path_exists :: "world \<Rightarrow> string \<Rightarrow> bool \<Rightarrow> bool result" where
  "path_exists w p present =
     (if present then Returned True
      else case stat_error w p of Some e \<Rightarrow> Raised e | None \<Rightarrow> Returned False)"

definition scene_files :: "world \<Rightarrow> string \<Rightarrow> directory option" where
  "scene_files w nm =
     (case input_node w of
        Listing es \<Rightarrow> (case map_of es nm of Some (Folder d) \<Rightarrow> Some d | _ \<Rightarrow> None)
      | _ \<Rightarrow> None)"

fun update_entry :: "string \<Rightarrow> entry \<Rightarrow> (string \<times> entry) list \<Rightarrow> (string \<times> entry) list" where
  "update_entry k v [] = []"
| "update_entry k v ((k', v') # es) =
     (if k = k' then (k, v) # es else (k', v') # update_entry k v es)"

definition put_scene :: "world \<Rightarrow> string \<Rightarrow> directory \<Rightarrow> world" where
  "put_scene w nm d =
     (case input_node w of
        Listing es \<Rightarrow> w\<lparr>input_node := Listing (update_entry nm (Folder d) es)\<rparr>
      | _ \<Rightarrow> w)"

section \<open>Choosing the tool's output file\<close>

text \<open>
  \<^verbatim>\<open>max(candidates, key=lambda p: p.stat().st_mtime)\<close>: Python's \<^verbatim>\<open>max\<close> keeps the
  first of the maximal elements.
\<close>

fun py_max_by :: "('a \<Rightarrow> 'k::linorder) \<Rightarrow> 'a \<Rightarrow> 'a list \<Rightarrow> 'a" where
  "py_max_by key best [] = best"
| "py_max_by key best (x # xs) = py_max_by key (if key best < key x then x else best) xs"

datatype 'a pick = NoCandidates | Chosen 'a

text \<open>Lines 69--79 of \<^verbatim>\<open>process_scene\<close>, on the list the glob returned.\<close>

definition select_seg_file :: "rat \<Rightarrow> (string \<times> regfile) list \<Rightarrow> (string \<times> regfile) pick" where
  "select_seg_file kthresh candidates =
     (case candidates of
        [] \<Rightarrow> NoCandidates
      | c0 # cs \<Rightarrow>
          (let kthresh_str = format_6f kthresh;
               matching = filter (\<lambda>c. str_contains kthresh_str (fst c)) candidates
           in case matching of
                m # _ \<Rightarrow> Chosen m
              | [] \<Rightarrow> Chosen (py_max_by (\<lambda>p. st_mtime (snd p)) c0 cs)))"

section \<open>One scene\<close>

type_synonym outcome = "bool \<times> string \<times> string option"

text \<open>
  Lines 24--108. The test of line 42 stands before the \<^verbatim>\<open>try\<close>: when it raises, the
  exception leaves the function. Everything raised inside the \<^verbatim>\<open>try\<close> is turned into
  a returned failure by the two handlers.
\<close>

definition process_scene ::
  "segmentator \<Rightarrow> path \<Rightarrow> string \<Rightarrow> string \<Rightarrow> rat \<Rightarrow> int \<Rightarrow> world
     \<Rightarrow> outcome result \<times> world" where
  "process_scene seg scene_dir output_dir segmentator_bin kthresh seg_min_verts w =
     (let scene_name = name scene_dir;
          ply_file = joinpath (str_path scene_dir) (ply_name scene_name);
          present = (case scene_files w scene_name of
                       None \<Rightarrow> False
                     | Some d \<Rightarrow> map_of d (ply_name scene_name) \<noteq> None)
      in case path_exists w ply_file present of
           Raised e \<Rightarrow> (Raised e, w)
         | Returned False \<Rightarrow>
             (Returned (False, scene_name, Some (''PLY file not found: '' @ ply_file)), w)
         | Returned True \<Rightarrow>
             let d = (case scene_files w scene_name of None \<Rightarrow> [] | Some d \<Rightarrow> d);
                 cmd = \<lparr>inv_binary = segmentator_bin, inv_ply = ply_file,
                        inv_kthresh = kthresh, inv_min_verts = seg_min_verts,
                        inv_cwd = str_path scene_dir\<rparr>;
                 w1 = w\<lparr>calls := calls w @ [cmd]\<rparr>
             in case seg cmd d of
                  (CannotLaunch msg, _) \<Rightarrow>
                    (Returned (False, scene_name, Some (''Unexpected error: '' @ msg)), w1)
                | (Exited code out err, d') \<Rightarrow>
                    let w2 = put_scene w1 scene_name d' in
                    if code \<noteq> 0 then
                      (Returned (False, scene_name, Some (''Segmentator error: '' @ err)), w2)
                    else
                      (case select_seg_file kthresh
                              (filter (\<lambda>c. glob_matches scene_name (fst c)) d') of
                         NoCandidates \<Rightarrow>
                           (Returned (False, scene_name,
                              Some (''No segs.json file generated for '' @ scene_name)), w2)
                       | Chosen seg_file \<Rightarrow>
                           (case body (snd seg_file) of
                              NotJson msg \<Rightarrow>
                                (Returned (False, scene_name,
                                   Some (''Unexpected error: '' @ msg)), w2)
                            | Document seg_data \<Rightarrow>
                                (case py_contains ''segIndices'' seg_data of
                                   Inl msg \<Rightarrow>
                                     (Returned (False, scene_name,
                                        Some (''Unexpected error: '' @ msg)), w2)
                                 | Inr False \<Rightarrow>
                                     (Returned (False, scene_name,
                                        Some ''Invalid segs.json format: missing segIndices''),
                                      w2)
                                 | Inr True \<Rightarrow>
                                     (case out_node w2 of
                                        OutBlocked msg \<Rightarrow>
                                          (Returned (False, scene_name,
                                             Some (''Unexpected error: '' @ msg)), w2)
                                      | _ \<Rightarrow>
                                          (Returned (True, scene_name, None),
                                           w2\<lparr>out_node := OutDir,
                                             out_files := (out_files w2)
                                               (joinpath output_dir (output_filename scene_name)
                                                  \<mapsto> snd seg_file)\<rparr>))))))"

section \<open>The batch\<close>

record args =
  input_dir :: string
  output_dir :: string
  segmentator_path :: "string option"
  kthresh :: rat
  seg_min_verts :: int
  num_workers :: int
  skip_existing :: bool

text \<open>
  The counters and the failure ledger of \<^verbatim>\<open>main\<close>. The field \<open>outcomes\<close> is a ghost
  variable: it lists, in the order the loop consumed them, the scene and the status of every
  result the loop has accounted for.
\<close>

record tally =
  success_count :: nat
  fail_count :: nat
  failed_scenes :: "(string \<times> string option) list"
  outcomes :: "(string \<times> bool) list"

definition empty_tally :: tally where
  "empty_tally = \<lparr>success_count = 0, fail_count = 0, failed_scenes = [], outcomes = []\<rparr>"

text \<open>Lines 245--251 and 268--272: one returned tuple is counted.\<close>

definition record_result :: "outcome \<Rightarrow> tally \<Rightarrow> tally" where
  "record_result r t =
     (case r of (success, scene_name, error_msg) \<Rightarrow>
        if success then
          t\<lparr>success_count := success_count t + 1,
            outcomes := outcomes t @ [(scene_name, True)]\<rparr>
        else
          t\<lparr>fail_count := fail_count t + 1,
            failed_scenes := failed_scenes t @ [(scene_name, error_msg)],
            outcomes := outcomes t @ [(scene_name, False)]\<rparr>)"

text \<open>Lines 252--255: \<^verbatim>\<open>future.result()\<close> raised instead of returning a tuple.\<close>

definition record_exception :: "path \<Rightarrow> string \<Rightarrow> tally \<Rightarrow> tally" where
  "record_exception scene_dir e t =
     t\<lparr>fail_count := fail_count t + 1,
       failed_scenes := failed_scenes t @ [(name scene_dir, Some e)],
       outcomes := outcomes t @ [(name scene_dir, False)]\<rparr>"

text \<open>
  How a loop over the tasks ends: an exception leaves it, or it runs to its end; either
  way with the state and the tally reached by then.
\<close>

datatype loop_end = Escaped string world tally | Ran world tally

text \<open>
  The sequential branch, lines 260--272. The loop has no handler: what
  \<^verbatim>\<open>process_scene\<close> raises leaves the loop, and \<^verbatim>\<open>main\<close> with it.
\<close>

fun run_sequential ::
  "segmentator \<Rightarrow> args \<Rightarrow> string \<Rightarrow> path list \<Rightarrow> world \<times> tally \<Rightarrow> loop_end" where
  "run_sequential seg a segmentator_bin [] (w, t) = Ran w t"
| "run_sequential seg a segmentator_bin (scene_dir # rest) (w, t) =
     (case process_scene seg scene_dir (output_dir a) segmentator_bin (kthresh a)
             (seg_min_verts a) w of
        (Raised e, w') \<Rightarrow> Escaped e w' t
      | (Returned r, w') \<Rightarrow>
          run_sequential seg a segmentator_bin rest (w', record_result r t))"

text \<open>
  The process pool, lines 225--257. The workers run outside the model; what the loop over
  \<^verbatim>\<open>as_completed\<close> sees is, again and again, one of the pending futures finishing. The
  scheduler is a parameter: \<open>next_done\<close> names which of the pending futures finishes next
  (an index, taken modulo their number), and \<open>broken\<close> tells for which scenes the future
  breaks (a worker that died, a result that could not be sent back), with the message of
  the exception and with how far the worker had got: it had not started the task, the tool
  had run but nothing was copied, or the whole pipeline had run and only its result was
  lost. The pipeline of a task takes effect on the filesystem when its future finishes.
  Whatever \<^verbatim>\<open>future.result()\<close> raises, the exception of a broken future or the one that
  \<^verbatim>\<open>process_scene\<close> raised in the worker, is caught by the handler of lines 252--255.
\<close>

datatype progress = NotStarted | ToolDone | AllDone

record pool =
  next_done :: "path list \<Rightarrow> nat"
  broken :: "path \<Rightarrow> (string \<times> progress) option"

definition left_behind :: "progress \<Rightarrow> world \<Rightarrow> world \<Rightarrow> world" where
  "left_behind pg w w_done =
     (case pg of
        NotStarted \<Rightarrow> w
      | ToolDone \<Rightarrow> w_done\<lparr>out_node := out_node w, out_files := out_files w\<rparr>
      | AllDone \<Rightarrow> w_done)"

lemma pending_shrinks:
  "pending \<noteq> [] \<Longrightarrow>
   k mod length pending + (length pending - Suc (k mod length pending)) < length pending"
proof -
  assume "pending \<noteq> []"
  then have "k mod length pending < length pending" by simp
  then show ?thesis by arith
qed

function run_pool ::
  "segmentator \<Rightarrow> pool \<Rightarrow> args \<Rightarrow> string \<Rightarrow> path list \<Rightarrow> world \<times> tally \<Rightarrow> world \<times> tally" where
  "run_pool seg pl a segmentator_bin pending (w, t) =
     (if pending = [] then (w, t)
      else
        let i = next_done pl pending mod length pending;
            scene_dir = pending ! i;
            rest = take i pending @ drop (Suc i) pending
        in case broken pl scene_dir of
             Some (e, pg) \<Rightarrow>
               run_pool seg pl a segmentator_bin rest
                 (left_behind pg w
                    (snd (process_scene seg scene_dir (output_dir a) segmentator_bin
                            (kthresh a) (seg_min_verts a) w)),
                  record_exception scene_dir e t)
           | None \<Rightarrow>
               (case process_scene seg scene_dir (output_dir a) segmentator_bin (kthresh a)
                       (seg_min_verts a) w of
                  (Raised e, w') \<Rightarrow>
                    run_pool seg pl a segmentator_bin rest (w', record_exception scene_dir e t)
                | (Returned r, w') \<Rightarrow>
                    run_pool seg pl a segmentator_bin rest (w', record_result r t)))"
  by pat_completeness auto
termination
  by (relation "measure (\<lambda>(seg, pl, a, b, pending, s). length pending)")
     (auto simp: pending_shrinks)

declare run_pool.simps [simp del]

text \<open>Line 191: the entries of the input directory that are directories named \<^verbatim>\<open>scene...\<close>.\<close>

fun is_dir :: "entry \<Rightarrow> bool" where
  "is_dir (Folder d) = True"
| "is_dir Plain = False"

definition find_scene_dirs :: "string \<Rightarrow> (string \<times> entry) list \<Rightarrow> path list" where
  "find_scene_dirs input es =
     map (\<lambda>d. \<lparr>parent = input, name = fst d\<rparr>)
       (filter (\<lambda>d. is_dir (snd d) \<and> prefix ''scene'' (fst d)) es)"

text \<open>
  Lines 207--215: the loop of \<^verbatim>\<open>--skip_existing\<close> leaves out the scenes whose output
  file exists. The test is \<^verbatim>\<open>output_file.exists()\<close> again, outside any handler.
\<close>

fun remaining_scenes :: "string \<Rightarrow> world \<Rightarrow> path list \<Rightarrow> path list result" where
  "remaining_scenes out w [] = Returned []"
| "remaining_scenes out w (scene_dir # rest) =
     (case path_exists w (joinpath out (output_filename (name scene_dir)))
             (out_files w (joinpath out (output_filename (name scene_dir))) \<noteq> None) of
        Raised e \<Rightarrow> Raised e
      | Returned found \<Rightarrow>
          (case remaining_scenes out w rest of
             Raised e \<Rightarrow> Raised e
           | Returned remaining \<Rightarrow>
               Returned (if found then remaining else scene_dir # remaining)))"

text \<open>Lines 170--175: an absent or empty option falls back to the script's directory.\<close>

definition resolve_binary :: "string \<Rightarrow> args \<Rightarrow> string" where
  "resolve_binary script_dir a =
     (case segmentator_path a of
        None \<Rightarrow> joinpath script_dir ''segmentator''
      | Some p \<Rightarrow> if p = [] then joinpath script_dir ''segmentator'' else p)"

text \<open>
  How the program ends: \<^verbatim>\<open>sys.exit(1)\<close>, an exception nobody catches, or the summary.
\<close>

datatype finish = SysExit int | Uncaught string | Completed tally

text \<open>
  Lines 111--283. After the checks of the two paths, \<^verbatim>\<open>output_dir.mkdir\<close> (line 187),
  the listing of the input directory, the skip loop and one of the two loops over the tasks
  follow; none of them stands in a handler.
\<close>

definition main :: "segmentator \<Rightarrow> pool \<Rightarrow> string \<Rightarrow> args \<Rightarrow> world \<Rightarrow> finish \<times> world" where
  "main seg pl script_dir a w =
     (case input_node w of
        NoInput \<Rightarrow> (SysExit 1, w)
      | InputNotDir \<Rightarrow>
          (case bin_at w (resolve_binary script_dir a) of
             BinaryFile \<Rightarrow>
               (case out_node w of
                  OutBlocked e \<Rightarrow> (Uncaught e, w)
                | _ \<Rightarrow> (Uncaught ''NotADirectoryError'', w\<lparr>out_node := OutDir\<rparr>))
           | _ \<Rightarrow> (SysExit 1, w))
      | Listing es \<Rightarrow>
          (case bin_at w (resolve_binary script_dir a) of
             NoBinary \<Rightarrow> (SysExit 1, w)
           | BinaryNotFile \<Rightarrow> (SysExit 1, w)
           | BinaryFile \<Rightarrow>
               (case out_node w of
                  OutBlocked e \<Rightarrow> (Uncaught e, w)
                | _ \<Rightarrow>
                    (let w0 = w\<lparr>out_node := OutDir\<rparr>;
                         scene_dirs = find_scene_dirs (input_dir a) es
                     in if scene_dirs = [] then (SysExit 1, w0)
                        else
                          (case (if skip_existing a
                                 then remaining_scenes (output_dir a) w0 scene_dirs
                                 else Returned scene_dirs) of
                             Raised e \<Rightarrow> (Uncaught e, w0)
                           | Returned tasks \<Rightarrow>
                               if 1 < num_workers a then
                                 (case run_pool seg pl a (resolve_binary script_dir a) tasks
                                         (w0, empty_tally) of
                                    (w', t) \<Rightarrow> (Completed t, w'))
                               else
                                 (case run_sequential seg a (resolve_binary script_dir a) tasks
                                         (w0, empty_tally) of
                                    Escaped e w' t \<Rightarrow> (Uncaught e, w')
                                  | Ran w' t \<Rightarrow> (Completed t, w')))))))"

text \<open>The command line that \<^verbatim>\<open>process_scene\<close> builds (lines 48--53 and 60).\<close>

definition the_cmd :: "path \<Rightarrow> string \<Rightarrow> rat \<Rightarrow> int \<Rightarrow> invocation" where
  "the_cmd scene_dir segmentator_bin k m =
     \<lparr>inv_binary = segmentator_bin,
      inv_ply = joinpath (str_path scene_dir) (ply_name (name scene_dir)),
      inv_kthresh = k, inv_min_verts = m,
      inv_cwd = str_path scene_dir\<rparr>"

text \<open>
  Devices for reasoning about the loops. \<open>pool_order\<close> is the order in which the
  scheduler lets the futures finish, and \<open>run_list\<close> is the loop both branches of
  \<^verbatim>\<open>main\<close> come down to: the tasks are accounted for one after the other in a given
  order, with or without a handler around each of them.
\<close>

function pool_order :: "pool \<Rightarrow> path list \<Rightarrow> path list" where
  "pool_order pl pending =
     (if pending = [] then []
      else
        let i = next_done pl pending mod length pending
        in pending ! i # pool_order pl (take i pending @ drop (Suc i) pending))"
  by pat_completeness auto
termination
  by (relation "measure (\<lambda>(pl, pending). length pending)") (auto simp: pending_shrinks)

declare pool_order.simps [simp del]

fun run_list ::
  "bool \<Rightarrow> (path \<Rightarrow> (string \<times> progress) option) \<Rightarrow> segmentator \<Rightarrow> args \<Rightarrow> string \<Rightarrow> path list
     \<Rightarrow> world \<times> tally \<Rightarrow> loop_end" where
  "run_list handled brk seg a bin [] (w, t) = Ran w t"
| "run_list handled brk seg a bin (scene_dir # rest) (w, t) =
     (case brk scene_dir of
        Some (e, pg) \<Rightarrow>
          run_list handled brk seg a bin rest
            (left_behind pg w
               (snd (process_scene seg scene_dir (output_dir a) bin (kthresh a)
                       (seg_min_verts a) w)),
             record_exception scene_dir e t)
      | None \<Rightarrow>
          (case process_scene seg scene_dir (output_dir a) bin (kthresh a) (seg_min_verts a) w of
             (Raised e, w') \<Rightarrow>
               if handled then run_list handled brk seg a bin rest (w', record_exception scene_dir e t)
               else Escaped e w' t
           | (Returned r, w') \<Rightarrow> run_list handled brk seg a bin rest (w', record_result r t)))"





section \<open>Sample data\<close>

text \<open>
  Tools, files and a small input tree on which the statements below are run: a tool that
  exits with code 0 after adding files to the scene's directory, a tool that exits with
  a given code without writing, and a tool that cannot be started.
\<close>

definition tool_writes :: "directory \<Rightarrow> segmentator" where
  "tool_writes new cmd d = (Exited 0 [] [], d @ new)"

definition tool_exits :: "int \<Rightarrow> string \<Rightarrow> segmentator" where
  "tool_exits code err cmd d = (Exited code [] err, d)"

definition tool_unlaunchable :: "string \<Rightarrow> segmentator" where
  "tool_unlaunchable msg cmd d = (CannotLaunch msg, d)"

definition demo_ply :: regfile where
  "demo_ply = \<lparr>st_mtime = 1, body = NotJson ''ply''\<rparr>"

definition good_segs :: regfile where
  "good_segs = \<lparr>st_mtime = 5,
     body = Document (JObj [(''segIndices'', JArr [JInt 0, JInt 0, JInt 1])])\<rparr>"

definition demo_world :: world where
  "demo_world =
     \<lparr>input_node = Listing
        [(''scene0'', Folder [(''scene0_vh_clean_2.ply'', demo_ply)]),
         (''notes.txt'', Plain),
         (''scene1'', Folder [])],
      bin_at = (\<lambda>p. BinaryFile),
      out_node = OutDir,
      out_files = Map.empty,
      stat_error = (\<lambda>p. None),
      calls = []\<rparr>"

definition scene0 :: path where
  "scene0 = \<lparr>parent = ''scans'', name = ''scene0''\<rparr>"

definition scene1 :: path where
  "scene1 = \<lparr>parent = ''scans'', name = ''scene1''\<rparr>"

definition old_segs :: regfile where
  "old_segs = \<lparr>st_mtime = 3, body = Document (JObj [(''segIndices'', JArr [])])\<rparr>"

definition tied_a :: regfile where
  "tied_a = \<lparr>st_mtime = 7, body = Document (JObj [(''segIndices'', JArr [])])\<rparr>"

definition tied_b :: regfile where
  "tied_b = \<lparr>st_mtime = 7, body = Document (JObj [(''segIndices'', JArr [JInt 4])])\<rparr>"

definition bad_segs :: regfile where
  "bad_segs = \<lparr>st_mtime = 5, body = Document (JArr [JStr ''segIndices''])\<rparr>"

definition garbled_segs :: regfile where
  "garbled_segs = \<lparr>st_mtime = 5, body = NotJson ''Expecting value: line 1 column 1 (char 0)''\<rparr>"

definition demo_args :: args where
  "demo_args = \<lparr>input_dir = ''scans'', output_dir = ''out'',
     segmentator_path = Some ''bin/segmentator'', kthresh = float_0_01,
     seg_min_verts = 20, num_workers = 1, skip_existing = False\<rparr>"

definition demo_pool :: pool where
  "demo_pool = \<lparr>next_done = (\<lambda>pending. length pending - 1), broken = (\<lambda>scene_dir. None)\<rparr>"


text \<open>
  An input tree with a scene directory whose name has 245 characters. The name of its
  \<^verbatim>\<open>.ply\<close> file would have 260 characters and that of its output file 275, more than
  the 255 that the usual filesystems allow in a file name, so that \<^verbatim>\<open>stat\<close> on these
  paths fails with \<^verbatim>\<open>ENAMETOOLONG\<close>, an error that \<^verbatim>\<open>Path.exists()\<close> lets through.
  The second scene is in order.
\<close>

definition long_name :: string where
  "long_name = ''scene'' @ replicate 240 CHR ''a''"

definition long_scene :: path where
  "long_scene = \<lparr>parent = ''scans'', name = long_name\<rparr>"

definition name_too_long :: "string \<Rightarrow> string" where
  "name_too_long p = ''[Errno 36] File name too long: '' @ [CHR 0x27] @ p @ [CHR 0x27]"

definition long_world :: world where
  "long_world =
     \<lparr>input_node = Listing
        [(long_name, Folder []),
         (''scene1'', Folder [(''scene1_vh_clean_2.ply'', demo_ply)])],
      bin_at = (\<lambda>p. BinaryFile),
      out_node = OutDir,
      out_files = Map.empty,
      stat_error =
        (\<lambda>p. if p = joinpath (str_path long_scene) (ply_name long_name)
                \<or> p = joinpath ''out'' (output_filename long_name)
             then Some (name_too_long p) else None),
      calls = []\<rparr>"

section \<open>Facts about one scene\<close>


lemma process_scene_cannot_launch:
  assumes "scene_files w (name scene_dir) = Some d"
    and "map_of d (ply_name (name scene_dir)) = Some p"
    and "seg (the_cmd scene_dir bin k m) d = (CannotLaunch msg, d')"
  shows "process_scene seg scene_dir out bin k m w =
     (Returned (False, name scene_dir, Some (''Unexpected error: '' @ msg)),
      w\<lparr>calls := calls w @ [the_cmd scene_dir bin k m]\<rparr>)"
  using assms by (simp add: process_scene_def path_exists_def Let_def the_cmd_def)

lemma process_scene_nonzero:
  assumes "scene_files w (name scene_dir) = Some d"
    and "map_of d (ply_name (name scene_dir)) = Some p"
    and "seg (the_cmd scene_dir bin k m) d = (Exited code out err, d')"
    and "code \<noteq> 0"
  shows "process_scene seg scene_dir outd bin k m w =
     (Returned (False, name scene_dir, Some (''Segmentator error: '' @ err)),
      put_scene (w\<lparr>calls := calls w @ [the_cmd scene_dir bin k m]\<rparr>) (name scene_dir) d')"
  using assms by (simp add: process_scene_def path_exists_def Let_def the_cmd_def)

lemma process_scene_exit0:
  assumes "scene_files w (name scene_dir) = Some d"
    and "map_of d (ply_name (name scene_dir)) = Some p"
    and "seg (the_cmd scene_dir bin k m) d = (Exited 0 out err, d')"
  shows "process_scene seg scene_dir outd bin k m w =
     (let w2 = put_scene (w\<lparr>calls := calls w @ [the_cmd scene_dir bin k m]\<rparr>) (name scene_dir) d'
      in case select_seg_file k (filter (\<lambda>c. glob_matches (name scene_dir) (fst c)) d') of
           NoCandidates \<Rightarrow>
             (Returned (False, name scene_dir,
                Some (''No segs.json file generated for '' @ name scene_dir)), w2)
         | Chosen seg_file \<Rightarrow>
             (case body (snd seg_file) of
                NotJson msg \<Rightarrow>
                  (Returned (False, name scene_dir, Some (''Unexpected error: '' @ msg)), w2)
              | Document seg_data \<Rightarrow>
                  (case py_contains ''segIndices'' seg_data of
                     Inl msg \<Rightarrow>
                       (Returned (False, name scene_dir,
                          Some (''Unexpected error: '' @ msg)), w2)
                   | Inr False \<Rightarrow>
                       (Returned (False, name scene_dir,
                          Some ''Invalid segs.json format: missing segIndices''), w2)
                   | Inr True \<Rightarrow>
                       (case out_node w2 of
                          OutBlocked msg \<Rightarrow>
                            (Returned (False, name scene_dir,
                               Some (''Unexpected error: '' @ msg)), w2)
                        | _ \<Rightarrow>
                            (Returned (True, name scene_dir, None),
                             w2\<lparr>out_node := OutDir,
                               out_files := (out_files w2)
                                 (joinpath outd (output_filename (name scene_dir))
                                    \<mapsto> snd seg_file)\<rparr>)))))"
  using assms by (simp add: process_scene_def path_exists_def Let_def the_cmd_def)

lemma py_max_by_in: "py_max_by key b xs \<in> set (b # xs)"
  by (induction xs arbitrary: b) auto

lemma py_max_by_ge_best: "key b \<le> key (py_max_by key b xs)"
proof (induction xs arbitrary: b)
  case Nil
  then show ?case by simp
next
  case (Cons x xs)
  have "key b \<le> key (if key b < key x then x else b)" by (simp add: less_imp_le)
  also have "\<dots> \<le> key (py_max_by key (if key b < key x then x else b) xs)"
    by (rule Cons.IH)
  finally show ?case by simp
qed

lemma py_max_by_ge: "x \<in> set (b # xs) \<Longrightarrow> key x \<le> key (py_max_by key b xs)"
proof (induction xs arbitrary: b)
  case Nil
  then show ?case by simp
next
  case (Cons y ys)
  let ?b = "if key b < key y then y else b"
  show ?case
  proof (cases "x \<in> set ys")
    case True
    then have "x \<in> set (?b # ys)" by simp
    from Cons.IH [OF this] show ?thesis by simp
  next
    case False
    with Cons.prems have "x = b \<or> x = y" by auto
    then have "key x \<le> key ?b" by auto
    also have "\<dots> \<le> key (py_max_by key ?b ys)" by (rule py_max_by_ge_best)
    finally show ?thesis by simp
  qed
qed

lemma select_seg_file_Cons:
  "select_seg_file k (c0 # cs) =
     (case filter (\<lambda>c. str_contains (format_6f k) (fst c)) (c0 # cs) of
        m # _ \<Rightarrow> Chosen m
      | [] \<Rightarrow> Chosen (py_max_by (\<lambda>p. st_mtime (snd p)) c0 cs))"
  by (simp only: select_seg_file_def Let_def list.case)

lemma select_first_match:
  assumes "candidates = pre @ m # post"
    and "\<forall>c \<in> set pre. \<not> str_contains (format_6f k) (fst c)"
    and "str_contains (format_6f k) (fst m)"
  shows "select_seg_file k candidates = Chosen m"
proof -
  have flt: "filter (\<lambda>c. str_contains (format_6f k) (fst c)) candidates
        = m # filter (\<lambda>c. str_contains (format_6f k) (fst c)) post"
    using assms by simp
  have "candidates \<noteq> []" using assms(1) by simp
  then obtain c0 cs where c: "candidates = c0 # cs"
    by (cases candidates) auto
  show ?thesis
    using flt unfolding c select_seg_file_Cons by simp
qed

lemma select_latest:
  assumes "candidates \<noteq> []"
    and "\<forall>c \<in> set candidates. \<not> str_contains (format_6f k) (fst c)"
  shows "\<exists>c \<in> set candidates. select_seg_file k candidates = Chosen c \<and>
           (\<forall>c' \<in> set candidates. st_mtime (snd c') \<le> st_mtime (snd c))"
proof -
  obtain c0 cs where c: "candidates = c0 # cs"
    using assms(1) by (cases candidates) auto
  have flt: "filter (\<lambda>c. str_contains (format_6f k) (fst c)) (c0 # cs) = []"
    using assms(2) unfolding c by (simp only: filter_False)
  let ?m = "py_max_by (\<lambda>p. st_mtime (snd p)) c0 cs"
  have sel: "select_seg_file k candidates = Chosen ?m"
    unfolding c select_seg_file_Cons flt by simp
  have "?m \<in> set candidates" unfolding c by (rule py_max_by_in)
  moreover have "\<forall>c' \<in> set candidates. st_mtime (snd c') \<le> st_mtime (snd ?m)"
    unfolding c using py_max_by_ge [of _ c0 cs "\<lambda>p. st_mtime (snd p)"] by blast
  ultimately show ?thesis using sel by blast
qed

lemma str_nat_small: "n < 10 \<Longrightarrow> str_nat n = [digit_char n]"
  by (simp add: str_nat.simps)

lemma str_nat_big: "10 \<le> n \<Longrightarrow> str_nat n = str_nat (n div 10) @ [digit_char (n mod 10)]"
  by (subst str_nat.simps) simp

lemma round_float_0_01: "round_half_even (\<bar>float_0_01\<bar> * 1000000) = 10000"
proof -
  have f: "\<lfloor>\<bar>float_0_01\<bar> * 1000000\<rfloor> = 10000"
    by (rule floor_unique) (simp_all add: float_0_01_def)
  show ?thesis
    unfolding round_half_even_def Let_def f by (simp add: float_0_01_def)
qed

lemma format_float_0_01: "format_6f float_0_01 = ''0.010000''"
  unfolding format_6f_def Let_def round_float_0_01
  by (simp add: str_nat_small str_nat_big digit_char_def zfill6_def float_0_01_def)

lemma out_files_put_scene: "out_files (put_scene w nm d) = out_files w"
  by (simp add: put_scene_def split: in_node.splits)

lemma calls_put_scene: "calls (put_scene w nm d) = calls w"
  by (simp add: put_scene_def split: in_node.splits)

lemma out_node_put_scene: "out_node (put_scene w nm d) = out_node w"
  by (simp add: put_scene_def split: in_node.splits)

lemma stat_error_put_scene: "stat_error (put_scene w nm d) = stat_error w"
  by (simp add: put_scene_def split: in_node.splits)

lemma out_node_already: "out_node w = OutDir \<Longrightarrow> w\<lparr>out_node := OutDir\<rparr> = w"
  by (cases w) simp

lemma scene_files_demo_scene0:
  "scene_files demo_world (name scene0) = Some [(''scene0_vh_clean_2.ply'', demo_ply)]"
  by (simp add: scene_files_def demo_world_def scene0_def)

lemma ply_demo_scene0:
  "map_of [(''scene0_vh_clean_2.ply'', demo_ply)] (ply_name (name scene0)) = Some demo_ply"
  by (simp add: ply_name_def scene0_def)

lemma glob_demo:
  "filter (\<lambda>c. glob_matches (name scene0) (fst c))
     ([(''scene0_vh_clean_2.ply'', demo_ply)] @ [(''scene0_vh_clean_2.0.010000.segs.json'', f)])
   = [(''scene0_vh_clean_2.0.010000.segs.json'', f)]"
  by (simp add: glob_matches_def scene0_def suffix_to_prefix)

lemma process_scene_demo:
  "process_scene (tool_writes new) scene0 outd bin k m demo_world =
     (let w2 = put_scene (demo_world\<lparr>calls := [the_cmd scene0 bin k m]\<rparr>) ''scene0''
                 ([(''scene0_vh_clean_2.ply'', demo_ply)] @ new)
      in case select_seg_file k (filter (\<lambda>c. glob_matches ''scene0'' (fst c)) new) of
           NoCandidates \<Rightarrow>
             (Returned (False, ''scene0'', Some ''No segs.json file generated for scene0''), w2)
         | Chosen seg_file \<Rightarrow>
             (case body (snd seg_file) of
                NotJson msg \<Rightarrow>
                  (Returned (False, ''scene0'', Some (''Unexpected error: '' @ msg)), w2)
              | Document seg_data \<Rightarrow>
                  (case py_contains ''segIndices'' seg_data of
                     Inl msg \<Rightarrow>
                       (Returned (False, ''scene0'', Some (''Unexpected error: '' @ msg)), w2)
                   | Inr False \<Rightarrow>
                       (Returned (False, ''scene0'',
                          Some ''Invalid segs.json format: missing segIndices''), w2)
                   | Inr True \<Rightarrow>
                       (Returned (True, ''scene0'', None),
                        w2\<lparr>out_files := (out_files w2)
                          (outd @ ''/scene0_vh_clean_2.0.010000.segs.json'' \<mapsto> snd seg_file)\<rparr>))))"
proof -
  have run: "tool_writes new (the_cmd scene0 bin k m) [(''scene0_vh_clean_2.ply'', demo_ply)]
       = (Exited 0 [] [], [(''scene0_vh_clean_2.ply'', demo_ply)] @ new)"
    by (simp add: tool_writes_def)
  have g: "filter (\<lambda>c. glob_matches (name scene0) (fst c)) ([(''scene0_vh_clean_2.ply'', demo_ply)] @ new)
         = filter (\<lambda>c. glob_matches ''scene0'' (fst c)) new"
    by (simp add: glob_matches_def scene0_def suffix_to_prefix)
  have c: "calls demo_world = []" by (simp add: demo_world_def)
  have n: "name scene0 = ''scene0''" by (simp add: scene0_def)
  let ?w1 = "demo_world\<lparr>calls := calls demo_world @ [the_cmd scene0 bin k m]\<rparr>"
  let ?w2 = "put_scene ?w1 (name scene0) ([(''scene0_vh_clean_2.ply'', demo_ply)] @ new)"
  have o: "out_node ?w2 = OutDir"
    by (simp add: out_node_put_scene demo_world_def)
  have u: "\<And>f. ?w2\<lparr>out_node := OutDir, out_files := f\<rparr> = ?w2\<lparr>out_files := f\<rparr>"
    using out_node_already [OF o] by simp
  show ?thesis
    unfolding process_scene_exit0 [where seg = "tool_writes new" and scene_dir = scene0
                and w = demo_world, OF scene_files_demo_scene0 ply_demo_scene0 run]
              g Let_def o out_node.case u
    by (simp add: c n joinpath_def output_filename_def
             cong: pick.case_cong body.case_cong sum.case_cong bool.case_cong)
qed

lemma run_pool_empty: "run_pool seg pl a bin [] (w, t) = (w, t)"
  by (simp add: run_pool.simps)

lemma run_pool_step:
  assumes "pending \<noteq> []"
    and "i = next_done pl pending mod length pending"
  shows "run_pool seg pl a bin pending (w, t) =
     (case broken pl (pending ! i) of
        Some (e, pg) \<Rightarrow>
          run_pool seg pl a bin (take i pending @ drop (Suc i) pending)
            (left_behind pg w
               (snd (process_scene seg (pending ! i) (output_dir a) bin (kthresh a)
                       (seg_min_verts a) w)),
             record_exception (pending ! i) e t)
      | None \<Rightarrow>
          (case process_scene seg (pending ! i) (output_dir a) bin (kthresh a) (seg_min_verts a) w of
             (Raised e, w') \<Rightarrow>
               run_pool seg pl a bin (take i pending @ drop (Suc i) pending)
                 (w', record_exception (pending ! i) e t)
           | (Returned r, w') \<Rightarrow>
               run_pool seg pl a bin (take i pending @ drop (Suc i) pending)
                 (w', record_result r t)))"
  using assms(1) unfolding assms(2) by (subst run_pool.simps) (simp add: Let_def)

section \<open>Facts about the loops\<close>


lemma pool_order_empty: "pool_order pl [] = []"
  by (simp add: pool_order.simps)

lemma pool_order_step:
  "pending \<noteq> [] \<Longrightarrow>
   pool_order pl pending =
     pending ! (next_done pl pending mod length pending)
       # pool_order pl (take (next_done pl pending mod length pending) pending
                          @ drop (Suc (next_done pl pending mod length pending)) pending)"
  by (subst pool_order.simps) (simp add: Let_def)

lemma run_pool_list:
  "run_list True (broken pl) seg a bin (pool_order pl pending) st
     = Ran (fst (run_pool seg pl a bin pending st)) (snd (run_pool seg pl a bin pending st))"
proof (induction pending arbitrary: st rule: length_induct)
  case (1 pending)
  obtain w t where st: "st = (w, t)" by (cases st)
  show ?case
  proof (cases "pending = []")
    case True
    then show ?thesis by (simp add: st run_pool_empty pool_order_empty)
  next
    case False
    let ?i = "next_done pl pending mod length pending"
    let ?rest = "take ?i pending @ drop (Suc ?i) pending"
    have "length ?rest < length pending"
      using pending_shrinks [OF False, of "next_done pl pending"] by simp
    with 1 have IH: "\<And>st'. run_list True (broken pl) seg a bin (pool_order pl ?rest) st'
                       = Ran (fst (run_pool seg pl a bin ?rest st'))
                             (snd (run_pool seg pl a bin ?rest st'))"
      by blast
    show ?thesis
      unfolding st run_pool_step [OF False refl] pool_order_step [OF False]
      by (simp add: IH split: option.splits prod.splits result.splits)
  qed
qed

lemma mset_pool_order: "mset (pool_order pl pending) = mset pending"
proof (induction pending rule: length_induct)
  case (1 pending)
  show ?case
  proof (cases "pending = []")
    case True
    then show ?thesis by (simp add: pool_order_empty)
  next
    case False
    let ?i = "next_done pl pending mod length pending"
    let ?rest = "take ?i pending @ drop (Suc ?i) pending"
    have i: "?i < length pending" using False by simp
    have "length ?rest < length pending"
      using pending_shrinks [OF False, of "next_done pl pending"] by simp
    with 1 have IH: "mset (pool_order pl ?rest) = mset ?rest" by blast
    have "pending = take ?i pending @ pending ! ?i # drop (Suc ?i) pending"
      using i by (rule id_take_nth_drop)
    then have "mset pending = mset ?rest + {#pending ! ?i#}"
      by (metis add_mset_add_single mset.simps(2) mset_append union_mset_add_mset_right)
    then show ?thesis
      unfolding pool_order_step [OF False] by (simp add: IH)
  qed
qed

lemma run_list_handled_counts:
  "\<exists>w' t'. run_list True brk seg a bin tasks (w, t) = Ran w' t'
      \<and> success_count t' + fail_count t' = success_count t + fail_count t + length tasks"
proof (induction tasks arbitrary: w t)
  case Nil
  show ?case by simp
next
  case (Cons s tasks)
  have ex: "\<And>e. success_count (record_exception s e t) + fail_count (record_exception s e t)
              = success_count t + fail_count t + 1"
    by (simp add: record_exception_def)
  have rs: "\<And>r. success_count (record_result r t) + fail_count (record_result r t)
              = success_count t + fail_count t + 1"
    by (simp add: record_result_def split: prod.splits)
  show ?case
  proof (cases "brk s")
    case (Some ep)
    obtain e pg where ep: "ep = (e, pg)" by (cases ep)
    from Cons.IH [of "left_behind pg w
                        (snd (process_scene seg s (output_dir a) bin (kthresh a)
                                (seg_min_verts a) w))" "record_exception s e t"]
    show ?thesis by (auto simp: Some ep ex)
  next
    case None
    obtain x w' where ps:
      "process_scene seg s (output_dir a) bin (kthresh a) (seg_min_verts a) w = (x, w')"
      by (cases "process_scene seg s (output_dir a) bin (kthresh a) (seg_min_verts a) w")
    show ?thesis
    proof (cases x)
      case (Raised e)
      from Cons.IH [of w' "record_exception s e t"]
      show ?thesis by (auto simp: None ps Raised ex)
    next
      case (Returned r)
      from Cons.IH [of w' "record_result r t"]
      show ?thesis by (auto simp: None ps Returned rs)
    qed
  qed
qed

lemma pool_counts_every_task:
  "success_count (snd (run_pool seg pl a bin pending (w, t)))
     + fail_count (snd (run_pool seg pl a bin pending (w, t)))
   = success_count t + fail_count t + length pending"
proof -
  from run_list_handled_counts [of "broken pl" seg a bin "pool_order pl pending" w t]
  obtain w' t' where
    r: "run_list True (broken pl) seg a bin (pool_order pl pending) (w, t) = Ran w' t'"
    and c: "success_count t' + fail_count t'
              = success_count t + fail_count t + length (pool_order pl pending)"
    by blast
  from r have "t' = snd (run_pool seg pl a bin pending (w, t))"
    unfolding run_pool_list by simp
  moreover have "length (pool_order pl pending) = length pending"
    using mset_pool_order [of pl pending] by (metis size_mset)
  ultimately show ?thesis using c by simp
qed



























lemma remaining_scenes_subset:
  "remaining_scenes out w ds = Returned rs \<Longrightarrow> set rs \<subseteq> set ds"
  by (induction ds arbitrary: rs) (auto split: result.splits if_splits)


lemmas demo_defs =
  demo_world_def demo_args_def demo_pool_def scene0_def scene1_def demo_ply_def
  tool_unlaunchable_def tool_exits_def tool_writes_def

lemmas eval_defs =
  main_def resolve_binary_def find_scene_dirs_def empty_tally_def path_exists_def
  process_scene_def scene_files_def put_scene_def record_result_def record_exception_def
  joinpath_def str_path_def ply_name_def output_filename_def Let_def

lemmas run_pool_eval = run_pool_empty run_pool_step [OF _ refl]

lemma long_name_length: "length long_name = 245"
  by (simp add: long_name_def)

lemma long_ply_name_length: "length (ply_name long_name) = 260"
  by (simp add: ply_name_def long_name_def)

lemma long_name_prefix: "prefix ''scene'' long_name"
  by (simp add: long_name_def)

lemma long_name_other: "long_name \<noteq> ''scene1''" "''scene1'' \<noteq> long_name"
proof -
  show "long_name \<noteq> ''scene1''"
  proof
    assume "long_name = ''scene1''"
    then have "length long_name = length ''scene1''" by simp
    with long_name_length show False by simp
  qed
  then show "''scene1'' \<noteq> long_name" by (rule not_sym)
qed

section \<open>Choice among the candidates\<close>

text \<open>
  Claim C2. When some candidate's file name contains the threshold written with six
  decimals, the resolver takes the first such candidate in the order of the glob result
  (\<^verbatim>\<open>matching[0]\<close>); the choice is a function of that list. For the two names
  \<^verbatim>\<open>s_vh_clean_2.0.005000.segs.json\<close> and \<^verbatim>\<open>s_vh_clean_2.0.010000.segs.json\<close> and the
  threshold 0.01 it is the second name, in whichever order the glob lists them.
\<close>

theorem exact_match_selects_first:
  assumes "candidates = pre @ c # post"
    and "\<forall>c' \<in> set pre. \<not> str_contains (format_6f k) (fst c')"
    and "str_contains (format_6f k) (fst c)"
  shows "select_seg_file k candidates = Chosen c
     \<and> select_seg_file float_0_01
          [(''s_vh_clean_2.0.005000.segs.json'', f1), (''s_vh_clean_2.0.010000.segs.json'', f2)]
        = Chosen (''s_vh_clean_2.0.010000.segs.json'', f2)
     \<and> select_seg_file float_0_01
          [(''s_vh_clean_2.0.010000.segs.json'', f2), (''s_vh_clean_2.0.005000.segs.json'', f1)]
        = Chosen (''s_vh_clean_2.0.010000.segs.json'', f2)"
proof -
  have "select_seg_file k candidates = Chosen c"
    using assms by (rule select_first_match)
  then show ?thesis
    by (simp add: select_seg_file_Cons format_float_0_01)
qed

theorem exact_match_selects_first_witness:
  "select_seg_file float_0_01
     [(''s_vh_clean_2.0.005000.segs.json'', old_segs),
      (''s_vh_clean_2.0.010000.segs.json'', good_segs),
      (''s_vh_clean_2.0.010000.copy.segs.json'', old_segs)]
   = Chosen (''s_vh_clean_2.0.010000.segs.json'', good_segs)"
proof -
  have a: "[(''s_vh_clean_2.0.005000.segs.json'', old_segs),
            (''s_vh_clean_2.0.010000.segs.json'', good_segs),
            (''s_vh_clean_2.0.010000.copy.segs.json'', old_segs)]
         = [(''s_vh_clean_2.0.005000.segs.json'', old_segs)]
           @ (''s_vh_clean_2.0.010000.segs.json'', good_segs)
           # [(''s_vh_clean_2.0.010000.copy.segs.json'', old_segs)]" by simp
  have b: "\<forall>c' \<in> set [(''s_vh_clean_2.0.005000.segs.json'', old_segs)].
             \<not> str_contains (format_6f float_0_01) (fst c')"
    by (simp add: format_float_0_01)
  have c: "str_contains (format_6f float_0_01) (fst (''s_vh_clean_2.0.010000.segs.json'', good_segs))"
    by (simp add: format_float_0_01)
  from exact_match_selects_first [OF a b c] show ?thesis by simp
qed

text \<open>
  Claim C4. When the tool exits with code 0 and the glob finds nothing, the task fails with
  "No segs.json file generated". When there are candidates and none contains the formatted
  threshold, the resolver returns one of them, whose modification time no other candidate
  exceeds; it does so for every list, also with equal times (the sample run has a tie).
\<close>

theorem no_candidates_fails_else_latest_chosen:
  assumes "scene_files w (name scene_dir) = Some d"
    and "map_of d (ply_name (name scene_dir)) = Some p"
    and "seg (the_cmd scene_dir bin k m) d = (Exited 0 out err, d')"
    and "candidates = filter (\<lambda>c. glob_matches (name scene_dir) (fst c)) d'"
  shows "(candidates = [] \<longrightarrow>
            fst (process_scene seg scene_dir outd bin k m w)
              = Returned (False, name scene_dir,
                 Some (''No segs.json file generated for '' @ name scene_dir)))
       \<and> (candidates \<noteq> [] \<and> (\<forall>c \<in> set candidates. \<not> str_contains (format_6f k) (fst c)) \<longrightarrow>
            (\<exists>c \<in> set candidates. select_seg_file k candidates = Chosen c
               \<and> (\<forall>c' \<in> set candidates. st_mtime (snd c') \<le> st_mtime (snd c))))"
proof (intro conjI impI)
  assume "candidates = []"
  then have "select_seg_file k (filter (\<lambda>c. glob_matches (name scene_dir) (fst c)) d') = NoCandidates"
    using assms(4) by (simp add: select_seg_file_def)
  then show "fst (process_scene seg scene_dir outd bin k m w)
              = Returned (False, name scene_dir,
                 Some (''No segs.json file generated for '' @ name scene_dir))"
    unfolding process_scene_exit0 [where seg = seg, OF assms(1-3)] by (simp add: Let_def)
next
  assume "candidates \<noteq> [] \<and> (\<forall>c \<in> set candidates. \<not> str_contains (format_6f k) (fst c))"
  then show "\<exists>c \<in> set candidates. select_seg_file k candidates = Chosen c
               \<and> (\<forall>c' \<in> set candidates. st_mtime (snd c') \<le> st_mtime (snd c))"
    using select_latest [of candidates k] by blast
qed

theorem no_candidates_fails_else_latest_chosen_witness:
  "fst (process_scene (tool_writes []) scene0 ''out'' ''bin/segmentator'' float_0_01 20 demo_world)
     = Returned (False, ''scene0'', Some ''No segs.json file generated for scene0'')
   \<and> (\<exists>c \<in> set [(''scene0_vh_clean_2.a.segs.json'', tied_a),
                  (''scene0_vh_clean_2.b.segs.json'', tied_b)].
        select_seg_file float_0_01
          [(''scene0_vh_clean_2.a.segs.json'', tied_a), (''scene0_vh_clean_2.b.segs.json'', tied_b)]
          = Chosen c
        \<and> (\<forall>c' \<in> set [(''scene0_vh_clean_2.a.segs.json'', tied_a),
                        (''scene0_vh_clean_2.b.segs.json'', tied_b)].
              st_mtime (snd c') \<le> st_mtime (snd c)))"
proof -
  let ?ply = "[(''scene0_vh_clean_2.ply'', demo_ply)]"
  let ?new = "[(''scene0_vh_clean_2.a.segs.json'', tied_a), (''scene0_vh_clean_2.b.segs.json'', tied_b)]"
  have run0: "tool_writes [] (the_cmd scene0 ''bin/segmentator'' float_0_01 20) ?ply
                = (Exited 0 [] [], ?ply)"
    by (simp add: tool_writes_def)
  have c0: "[] = filter (\<lambda>c. glob_matches (name scene0) (fst c)) ?ply"
    by (simp add: glob_matches_def scene0_def suffix_to_prefix)
  have run1: "tool_writes ?new (the_cmd scene0 ''bin/segmentator'' float_0_01 20) ?ply
                = (Exited 0 [] [], ?ply @ ?new)"
    by (simp add: tool_writes_def)
  have c1: "?new = filter (\<lambda>c. glob_matches (name scene0) (fst c)) (?ply @ ?new)"
    by (simp add: glob_matches_def scene0_def suffix_to_prefix)
  have nomatch: "?new \<noteq> [] \<and> (\<forall>c \<in> set ?new. \<not> str_contains (format_6f float_0_01) (fst c))"
    by (simp add: format_float_0_01)
  have n: "name scene0 = ''scene0''" by (simp add: scene0_def)
  from no_candidates_fails_else_latest_chosen
         [where seg = "tool_writes []" and outd = "''out''",
          OF scene_files_demo_scene0 ply_demo_scene0 run0 c0]
       no_candidates_fails_else_latest_chosen
         [where seg = "tool_writes ?new" and outd = "''out''",
          OF scene_files_demo_scene0 ply_demo_scene0 run1 c1]
       nomatch
  show ?thesis unfolding n by simp
qed

section \<open>The output file\<close>

text \<open>
  Claim C3. Whenever \<^verbatim>\<open>process_scene\<close> reports success, the tool exited with code 0, the
  chosen candidate parsed to a document that passed the \<^verbatim>\<open>segIndices\<close> test, and the
  output files are those before the call with that candidate stored at
  \<^verbatim>\<open><output_dir>/<scene>_vh_clean_2.0.010000.segs.json\<close>. The threshold \<open>k\<close> is
  arbitrary: the name does not depend on it (the sample run uses 0.5).
\<close>

theorem success_writes_canonical_output:
  assumes "process_scene seg scene_dir outd bin k m w = (Returned (True, n, e), w')"
  shows "\<exists>d d' out err seg_file seg_data.
           scene_files w (name scene_dir) = Some d
         \<and> seg (the_cmd scene_dir bin k m) d = (Exited 0 out err, d')
         \<and> select_seg_file k (filter (\<lambda>c. glob_matches (name scene_dir) (fst c)) d')
             = Chosen seg_file
         \<and> body (snd seg_file) = Document seg_data
         \<and> py_contains ''segIndices'' seg_data = Inr True
         \<and> out_files w' = (out_files w)
             (joinpath outd (name scene_dir @ ''_vh_clean_2.0.010000.segs.json'') \<mapsto> snd seg_file)"
  using assms
  by (auto simp: process_scene_def path_exists_def Let_def the_cmd_def output_filename_def
                 out_files_put_scene
           split: option.splits if_splits prod.splits run_result.splits pick.splits
                  body.splits sum.splits bool.splits out_node.splits)

theorem success_writes_canonical_output_witness:
  "process_scene (tool_writes [(''scene0_vh_clean_2.0.010000.segs.json'', good_segs)])
       scene0 ''out'' ''bin/segmentator'' (1 / 2) 20 demo_world
     = (Returned (True, ''scene0'', None),
        (put_scene (demo_world\<lparr>calls := [the_cmd scene0 ''bin/segmentator'' (1 / 2) 20]\<rparr>) ''scene0''
           [(''scene0_vh_clean_2.ply'', demo_ply),
            (''scene0_vh_clean_2.0.010000.segs.json'', good_segs)])
        \<lparr>out_files := [''out/scene0_vh_clean_2.0.010000.segs.json'' \<mapsto> good_segs]\<rparr>)
   \<and> out_files (snd (process_scene (tool_writes [(''scene0_vh_clean_2.0.010000.segs.json'', good_segs)])
       scene0 ''out'' ''bin/segmentator'' (1 / 2) 20 demo_world))
       ''out/scene0_vh_clean_2.0.010000.segs.json'' = Some good_segs"
proof -
  let ?tool = "tool_writes [(''scene0_vh_clean_2.0.010000.segs.json'', good_segs)]"
  have g: "filter (\<lambda>c. glob_matches ''scene0'' (fst c))
             [(''scene0_vh_clean_2.0.010000.segs.json'', good_segs)]
           = [(''scene0_vh_clean_2.0.010000.segs.json'', good_segs)]"
    by (simp add: glob_matches_def suffix_to_prefix)
  have sel: "select_seg_file (1 / 2) [(''scene0_vh_clean_2.0.010000.segs.json'', good_segs)]
       = Chosen (''scene0_vh_clean_2.0.010000.segs.json'', good_segs)"
    by (simp add: select_seg_file_Cons split: list.splits)
  have eq: "process_scene ?tool scene0 ''out'' ''bin/segmentator'' (1 / 2) 20 demo_world
     = (Returned (True, ''scene0'', None),
        (put_scene (demo_world\<lparr>calls := [the_cmd scene0 ''bin/segmentator'' (1 / 2) 20]\<rparr>) ''scene0''
           [(''scene0_vh_clean_2.ply'', demo_ply),
            (''scene0_vh_clean_2.0.010000.segs.json'', good_segs)])
        \<lparr>out_files := [''out/scene0_vh_clean_2.0.010000.segs.json'' \<mapsto> good_segs]\<rparr>)"
    unfolding process_scene_demo g sel Let_def
    by (simp add: good_segs_def out_files_put_scene demo_world_def)
  from success_writes_canonical_output [OF eq] show ?thesis
    unfolding eq by (simp add: joinpath_def scene0_def)
qed

section \<open>Validation of the chosen file\<close>

text \<open>
  Claim C6 says that a chosen document without the field \<^verbatim>\<open>segIndices\<close> gives the
  failure "Invalid segs.json format" and no output file. The test in the source is
  \<^verbatim>\<open>"segIndices" not in seg_data\<close>, which is a key test only on a dict. The run below
  has the tool write the JSON array \<^verbatim>\<open>["segIndices"]\<close>, a document with no fields at
  all: the list membership test succeeds, the task is reported as a success and the file is
  copied to the output path.
\<close>

theorem array_document_is_accepted:
  "process_scene (tool_writes [(''scene0_vh_clean_2.0.010000.segs.json'', bad_segs)])
       scene0 ''out'' ''bin/segmentator'' float_0_01 20 demo_world
     = (Returned (True, ''scene0'', None),
        (put_scene (demo_world\<lparr>calls := [the_cmd scene0 ''bin/segmentator'' float_0_01 20]\<rparr>)
           ''scene0''
           [(''scene0_vh_clean_2.ply'', demo_ply),
            (''scene0_vh_clean_2.0.010000.segs.json'', bad_segs)])
        \<lparr>out_files := [''out/scene0_vh_clean_2.0.010000.segs.json'' \<mapsto> bad_segs]\<rparr>)
   \<and> body bad_segs = Document (JArr [JStr ''segIndices''])"
  unfolding process_scene_demo
  by (simp add: glob_matches_def suffix_to_prefix select_seg_file_Cons format_float_0_01
                bad_segs_def out_files_put_scene demo_world_def)

text \<open>
  What the test does on the other documents: an object without the key is rejected with
  the "Invalid segs.json format" detail and nothing is written, while on \<^verbatim>\<open>null\<close> (and
  likewise on a number or a bool) the operator raises and the task fails with the
  "Unexpected error" detail.
\<close>

lemma object_without_segIndices_is_rejected:
  assumes "scene_files w (name scene_dir) = Some d"
    and "map_of d (ply_name (name scene_dir)) = Some p"
    and "seg (the_cmd scene_dir bin k m) d = (Exited 0 out err, d')"
    and "select_seg_file k (filter (\<lambda>c. glob_matches (name scene_dir) (fst c)) d')
           = Chosen seg_file"
    and "body (snd seg_file) = Document (JObj kvs)"
    and "''segIndices'' \<notin> fst ` set kvs"
  shows "process_scene seg scene_dir outd bin k m w
           = (Returned (False, name scene_dir, Some ''Invalid segs.json format: missing segIndices''),
              put_scene (w\<lparr>calls := calls w @ [the_cmd scene_dir bin k m]\<rparr>)
                (name scene_dir) d')"
  unfolding process_scene_exit0 [where seg = seg, OF assms(1-3)]
  by (simp add: Let_def assms(4-6))

lemma null_document_is_unexpected_error:
  assumes "scene_files w (name scene_dir) = Some d"
    and "map_of d (ply_name (name scene_dir)) = Some p"
    and "seg (the_cmd scene_dir bin k m) d = (Exited 0 out err, d')"
    and "select_seg_file k (filter (\<lambda>c. glob_matches (name scene_dir) (fst c)) d')
           = Chosen seg_file"
    and "body (snd seg_file) = Document JNull"
  shows "process_scene seg scene_dir outd bin k m w
           = (Returned (False, name scene_dir, Some (''Unexpected error: '' @ type_error ''NoneType'')),
              put_scene (w\<lparr>calls := calls w @ [the_cmd scene_dir bin k m]\<rparr>)
                (name scene_dir) d')"
  unfolding process_scene_exit0 [where seg = seg, OF assms(1-3)]
  by (simp add: Let_def assms(4,5))

text \<open>
  Claim C10. When the chosen candidate is not parseable (\<^verbatim>\<open>json.load\<close> raises), the
  task fails with the detail "Unexpected error: " followed by the message of the exception,
  which is not the "Invalid segs.json format" detail; the output files are unchanged; and
  both loops go on with the remaining scenes, having counted one failure.
\<close>

theorem unparseable_output_is_unexpected_error:
  assumes "scene_files w (name scene_dir) = Some d"
    and "map_of d (ply_name (name scene_dir)) = Some p"
    and "seg (the_cmd scene_dir bin (kthresh a) (seg_min_verts a)) d = (Exited 0 out err, d')"
    and "select_seg_file (kthresh a) (filter (\<lambda>c. glob_matches (name scene_dir) (fst c)) d')
           = Chosen seg_file"
    and "body (snd seg_file) = NotJson msg"
  shows "\<exists>w2.
           process_scene seg scene_dir (output_dir a) bin (kthresh a) (seg_min_verts a) w
             = (Returned (False, name scene_dir, Some (''Unexpected error: '' @ msg)), w2)
         \<and> out_files w2 = out_files w
         \<and> ''Unexpected error: '' @ msg \<noteq> ''Invalid segs.json format: missing segIndices''
         \<and> run_sequential seg a bin (scene_dir # rest) (w, t)
             = run_sequential seg a bin rest
                 (w2, t\<lparr>fail_count := fail_count t + 1,
                        failed_scenes := failed_scenes t
                          @ [(name scene_dir, Some (''Unexpected error: '' @ msg))],
                        outcomes := outcomes t @ [(name scene_dir, False)]\<rparr>)
         \<and> (pending \<noteq> [] \<and> pending ! (next_done pl pending mod length pending) = scene_dir
              \<and> broken pl scene_dir = None \<longrightarrow>
            run_pool seg pl a bin pending (w, t)
             = run_pool seg pl a bin
                 (take (next_done pl pending mod length pending) pending
                    @ drop (Suc (next_done pl pending mod length pending)) pending)
                 (w2, t\<lparr>fail_count := fail_count t + 1,
                        failed_scenes := failed_scenes t
                          @ [(name scene_dir, Some (''Unexpected error: '' @ msg))],
                        outcomes := outcomes t @ [(name scene_dir, False)]\<rparr>))"
proof -
  let ?w2 = "put_scene (w\<lparr>calls := calls w @ [the_cmd scene_dir bin (kthresh a) (seg_min_verts a)]\<rparr>)
               (name scene_dir) d'"
  have ps: "process_scene seg scene_dir (output_dir a) bin (kthresh a) (seg_min_verts a) w
             = (Returned (False, name scene_dir, Some (''Unexpected error: '' @ msg)), ?w2)"
    unfolding process_scene_exit0 [where seg = seg, OF assms(1-3)] by (simp add: Let_def assms(4,5))
  have out: "out_files ?w2 = out_files w" by (simp add: out_files_put_scene)
  have ne: "''Unexpected error: '' @ msg \<noteq> ''Invalid segs.json format: missing segIndices''"
    by simp
  have sq: "run_sequential seg a bin (scene_dir # rest) (w, t)
             = run_sequential seg a bin rest
                 (?w2, t\<lparr>fail_count := fail_count t + 1,
                        failed_scenes := failed_scenes t
                          @ [(name scene_dir, Some (''Unexpected error: '' @ msg))],
                        outcomes := outcomes t @ [(name scene_dir, False)]\<rparr>)"
    by (simp add: ps record_result_def)
  have pq: "pending \<noteq> [] \<and> pending ! (next_done pl pending mod length pending) = scene_dir
              \<and> broken pl scene_dir = None \<longrightarrow>
            run_pool seg pl a bin pending (w, t)
             = run_pool seg pl a bin
                 (take (next_done pl pending mod length pending) pending
                    @ drop (Suc (next_done pl pending mod length pending)) pending)
                 (?w2, t\<lparr>fail_count := fail_count t + 1,
                        failed_scenes := failed_scenes t
                          @ [(name scene_dir, Some (''Unexpected error: '' @ msg))],
                        outcomes := outcomes t @ [(name scene_dir, False)]\<rparr>)"
  proof (intro impI, elim conjE)
    assume a1: "pending \<noteq> []"
      and a2: "pending ! (next_done pl pending mod length pending) = scene_dir"
      and a3: "broken pl scene_dir = None"
    show "run_pool seg pl a bin pending (w, t)
             = run_pool seg pl a bin
                 (take (next_done pl pending mod length pending) pending
                    @ drop (Suc (next_done pl pending mod length pending)) pending)
                 (?w2, t\<lparr>fail_count := fail_count t + 1,
                        failed_scenes := failed_scenes t
                          @ [(name scene_dir, Some (''Unexpected error: '' @ msg))],
                        outcomes := outcomes t @ [(name scene_dir, False)]\<rparr>)"
      unfolding run_pool_step [OF a1 refl, of seg pl a bin w t] a2
      by (simp add: a3 ps record_result_def)
  qed
  from ps out ne sq pq show ?thesis by blast
qed

theorem unparseable_output_is_unexpected_error_witness:
  "fst (process_scene (tool_writes [(''scene0_vh_clean_2.0.010000.segs.json'', garbled_segs)])
          scene0 (output_dir demo_args) ''bin/segmentator'' (kthresh demo_args)
          (seg_min_verts demo_args) demo_world)
     = Returned (False, ''scene0'',
        Some ''Unexpected error: Expecting value: line 1 column 1 (char 0)'')
   \<and> fail_count (snd (run_pool (tool_writes [(''scene0_vh_clean_2.0.010000.segs.json'', garbled_segs)])
          demo_pool demo_args ''bin/segmentator'' [scene0] (demo_world, empty_tally))) = 1"
proof -
  let ?ply = "[(''scene0_vh_clean_2.ply'', demo_ply)]"
  let ?new = "[(''scene0_vh_clean_2.0.010000.segs.json'', garbled_segs)]"
  have run: "tool_writes ?new (the_cmd scene0 ''bin/segmentator'' (kthresh demo_args)
                 (seg_min_verts demo_args)) ?ply = (Exited 0 [] [], ?ply @ ?new)"
    by (simp add: tool_writes_def)
  have sel: "select_seg_file (kthresh demo_args)
               (filter (\<lambda>c. glob_matches (name scene0) (fst c)) (?ply @ ?new))
             = Chosen (''scene0_vh_clean_2.0.010000.segs.json'', garbled_segs)"
    by (simp add: glob_matches_def scene0_def suffix_to_prefix select_seg_file_Cons
                  demo_args_def format_float_0_01)
  have bd: "body (snd (''scene0_vh_clean_2.0.010000.segs.json'', garbled_segs))
              = NotJson ''Expecting value: line 1 column 1 (char 0)''"
    by (simp add: garbled_segs_def)
  have pool: "[scene0] \<noteq> [] \<and> [scene0] ! (next_done demo_pool [scene0] mod length [scene0]) = scene0
                \<and> broken demo_pool scene0 = None"
    by (simp add: demo_pool_def)
  have n: "name scene0 = ''scene0''" by (simp add: scene0_def)
  from unparseable_output_is_unexpected_error
         [where seg = "tool_writes ?new" and a = demo_args and pl = demo_pool
            and pending = "[scene0]" and rest = "[]" and t = empty_tally,
          OF scene_files_demo_scene0 ply_demo_scene0 run sel bd] pool
  show ?thesis
    unfolding n by (auto simp: run_pool_empty demo_pool_def empty_tally_def)
qed

section \<open>Missing input\<close>




section \<open>The batch as a whole\<close>

text \<open>
  Claim C1 says that every dispatched task yields exactly one outcome, whatever a task
  raises and whatever the number of workers. The loop over the pool has a handler around
  \<^verbatim>\<open>future.result()\<close> (lines 252--255), and with it every task is counted
  (\<open>pool_counts_every_task\<close>); the sequential loop (lines 260--272) has none. In the run
  below, with one worker, the existence test raises for the first scene, the exception
  leaves \<^verbatim>\<open>main\<close>, and neither that scene nor the one after it gets an outcome: there is
  no summary, and the tool was never run.
\<close>

theorem sequential_run_aborts_on_stat_error:
  "fst (main (tool_writes [(''scene1_vh_clean_2.0.010000.segs.json'', good_segs)]) demo_pool
          ''bin'' demo_args long_world)
     = Uncaught (name_too_long (joinpath (str_path long_scene) (ply_name long_name)))
   \<and> calls (snd (main (tool_writes [(''scene1_vh_clean_2.0.010000.segs.json'', good_segs)])
                    demo_pool ''bin'' demo_args long_world)) = []
   \<and> num_workers demo_args = 1"
  by (simp add: eval_defs demo_defs long_world_def long_scene_def long_name_prefix
                long_name_other)

text \<open>
  Claim C5 says that a tool that cannot be started aborts the batch with a fatal
  configuration error. In the source the \<^verbatim>\<open>OSError\<close> of \<^verbatim>\<open>subprocess.run\<close> is caught by
  \<^verbatim>\<open>except Exception\<close> inside \<^verbatim>\<open>process_scene\<close>: the run below completes, with the
  launch failure of the first scene in the ledger and the second scene processed after it.
\<close>

theorem unlaunchable_binary_does_not_abort:
  "fst (main (tool_unlaunchable ''[Errno 13] Permission denied'') demo_pool ''bin''
          demo_args demo_world)
     = Completed \<lparr>success_count = 0, fail_count = 2,
         failed_scenes =
           [(''scene0'', Some ''Unexpected error: [Errno 13] Permission denied''),
            (''scene1'', Some ''PLY file not found: scans/scene1/scene1_vh_clean_2.ply'')],
         outcomes = [(''scene0'', False), (''scene1'', False)]\<rparr>"
  by (simp add: eval_defs demo_defs)

text \<open>
  Claim C5 as amended. A tool that cannot be started during a task makes that task an
  ordinary failure with the detail "Unexpected error: " and the message of the operating
  system, and both loops go on with the remaining scenes. When the path of the tool does
  not exist or is not a regular file, the batch ends with exit status 1 before any task
  runs.
\<close>

theorem unlaunchable_binary_is_task_failure:
  assumes "scene_files w (name scene_dir) = Some d"
    and "map_of d (ply_name (name scene_dir)) = Some p"
    and "seg (the_cmd scene_dir bin (kthresh a) (seg_min_verts a)) d = (CannotLaunch msg, d')"
  shows "process_scene seg scene_dir (output_dir a) bin (kthresh a) (seg_min_verts a) w
           = (Returned (False, name scene_dir, Some (''Unexpected error: '' @ msg)),
              w\<lparr>calls := calls w @ [the_cmd scene_dir bin (kthresh a) (seg_min_verts a)]\<rparr>)
       \<and> run_sequential seg a bin (scene_dir # rest) (w, t)
           = run_sequential seg a bin rest
               (w\<lparr>calls := calls w @ [the_cmd scene_dir bin (kthresh a) (seg_min_verts a)]\<rparr>,
                t\<lparr>fail_count := fail_count t + 1,
                  failed_scenes := failed_scenes t
                    @ [(name scene_dir, Some (''Unexpected error: '' @ msg))],
                  outcomes := outcomes t @ [(name scene_dir, False)]\<rparr>)
       \<and> (pending \<noteq> [] \<and> pending ! (next_done pl pending mod length pending) = scene_dir
            \<and> broken pl scene_dir = None \<longrightarrow>
          run_pool seg pl a bin pending (w, t)
           = run_pool seg pl a bin
               (take (next_done pl pending mod length pending) pending
                  @ drop (Suc (next_done pl pending mod length pending)) pending)
               (w\<lparr>calls := calls w @ [the_cmd scene_dir bin (kthresh a) (seg_min_verts a)]\<rparr>,
                t\<lparr>fail_count := fail_count t + 1,
                  failed_scenes := failed_scenes t
                    @ [(name scene_dir, Some (''Unexpected error: '' @ msg))],
                  outcomes := outcomes t @ [(name scene_dir, False)]\<rparr>))
       \<and> (bin_at w0 (resolve_binary script_dir a) \<noteq> BinaryFile \<longrightarrow>
            main seg pl script_dir a w0 = (SysExit 1, w0))"
proof -
  let ?w1 = "w\<lparr>calls := calls w @ [the_cmd scene_dir bin (kthresh a) (seg_min_verts a)]\<rparr>"
  let ?t1 = "t\<lparr>fail_count := fail_count t + 1,
                failed_scenes := failed_scenes t
                  @ [(name scene_dir, Some (''Unexpected error: '' @ msg))],
                outcomes := outcomes t @ [(name scene_dir, False)]\<rparr>"
  have ps: "process_scene seg scene_dir (output_dir a) bin (kthresh a) (seg_min_verts a) w
              = (Returned (False, name scene_dir, Some (''Unexpected error: '' @ msg)), ?w1)"
    using assms by (rule process_scene_cannot_launch [where seg = seg])
  have sq: "run_sequential seg a bin (scene_dir # rest) (w, t)
              = run_sequential seg a bin rest (?w1, ?t1)"
    by (simp add: ps record_result_def)
  have pq: "pending \<noteq> [] \<and> pending ! (next_done pl pending mod length pending) = scene_dir
              \<and> broken pl scene_dir = None \<longrightarrow>
            run_pool seg pl a bin pending (w, t)
             = run_pool seg pl a bin
                 (take (next_done pl pending mod length pending) pending
                    @ drop (Suc (next_done pl pending mod length pending)) pending)
                 (?w1, ?t1)"
  proof (intro impI, elim conjE)
    assume a1: "pending \<noteq> []"
      and a2: "pending ! (next_done pl pending mod length pending) = scene_dir"
      and a3: "broken pl scene_dir = None"
    show "run_pool seg pl a bin pending (w, t)
             = run_pool seg pl a bin
                 (take (next_done pl pending mod length pending) pending
                    @ drop (Suc (next_done pl pending mod length pending)) pending)
                 (?w1, ?t1)"
      unfolding run_pool_step [OF a1 refl, of seg pl a bin w t] a2
      by (simp add: a3 ps record_result_def)
  qed
  have ab: "bin_at w0 (resolve_binary script_dir a) \<noteq> BinaryFile \<longrightarrow>
              main seg pl script_dir a w0 = (SysExit 1, w0)"
    by (simp add: main_def split: in_node.splits bin_node.splits)
  from ps sq pq ab show ?thesis by blast
qed

theorem unlaunchable_binary_is_task_failure_witness:
  "fst (process_scene (tool_unlaunchable ''[Errno 13] Permission denied'') scene0
          (output_dir demo_args) ''bin/segmentator'' (kthresh demo_args)
          (seg_min_verts demo_args) demo_world)
     = Returned (False, ''scene0'', Some ''Unexpected error: [Errno 13] Permission denied'')
   \<and> fail_count (snd (run_pool (tool_unlaunchable ''[Errno 13] Permission denied'')
          demo_pool demo_args ''bin/segmentator'' [scene0] (demo_world, empty_tally))) = 1
   \<and> main (tool_unlaunchable ''[Errno 13] Permission denied'') demo_pool ''bin'' demo_args
          (demo_world\<lparr>bin_at := (\<lambda>p. NoBinary)\<rparr>)
       = (SysExit 1, demo_world\<lparr>bin_at := (\<lambda>p. NoBinary)\<rparr>)"
proof -
  let ?tool = "tool_unlaunchable ''[Errno 13] Permission denied''"
  have run: "?tool (the_cmd scene0 ''bin/segmentator'' (kthresh demo_args) (seg_min_verts demo_args))
               [(''scene0_vh_clean_2.ply'', demo_ply)]
             = (CannotLaunch ''[Errno 13] Permission denied'', [(''scene0_vh_clean_2.ply'', demo_ply)])"
    by (simp add: tool_unlaunchable_def)
  have pool: "[scene0] \<noteq> [] \<and> [scene0] ! (next_done demo_pool [scene0] mod length [scene0]) = scene0
                \<and> broken demo_pool scene0 = None"
    by (simp add: demo_pool_def)
  have nb: "bin_at (demo_world\<lparr>bin_at := (\<lambda>p. NoBinary)\<rparr>) (resolve_binary ''bin'' demo_args)
              \<noteq> BinaryFile"
    by simp
  have n: "name scene0 = ''scene0''" by (simp add: scene0_def)
  from unlaunchable_binary_is_task_failure
         [where seg = ?tool and a = demo_args and pl = demo_pool and pending = "[scene0]"
            and rest = "[]" and t = empty_tally and script_dir = "''bin''"
            and ?w0.0 = "demo_world\<lparr>bin_at := (\<lambda>p. NoBinary)\<rparr>",
          OF scene_files_demo_scene0 ply_demo_scene0 run] pool nb
  show ?thesis
    unfolding n by (auto simp: run_pool_empty demo_pool_def empty_tally_def)
qed

text \<open>
  Claim C8 says that one worker and eight workers give the same multiset of scene and
  status. On the input tree with the long scene name the run with one worker ends with the
  exception of the existence test and reports no outcome, while the run with eight workers,
  on the same tree with the same tool, reaches its summary with one outcome for each of the
  two scenes. The difference comes from the same place as for claim C1: the handler that the
  loop over the pool has and the sequential loop lacks.
\<close>

theorem one_worker_aborts_where_eight_complete:
  "fst (main (tool_writes [(''scene1_vh_clean_2.0.010000.segs.json'', good_segs)]) demo_pool
          ''bin'' (demo_args\<lparr>num_workers := 1\<rparr>) long_world)
     = Uncaught (name_too_long (joinpath (str_path long_scene) (ply_name long_name)))
   \<and> fst (main (tool_writes [(''scene1_vh_clean_2.0.010000.segs.json'', good_segs)]) demo_pool
            ''bin'' (demo_args\<lparr>num_workers := 8\<rparr>) long_world)
     = Completed \<lparr>success_count = 1, fail_count = 1,
         failed_scenes =
           [(long_name,
             Some (name_too_long (joinpath (str_path long_scene) (ply_name long_name))))],
         outcomes = [(''scene1'', True), (long_name, False)]\<rparr>"
  by (simp add: eval_defs demo_defs run_pool_eval long_world_def long_scene_def
                long_name_prefix long_name_other good_segs_def glob_matches_def
                suffix_to_prefix select_seg_file_Cons format_float_0_01)




end
